theory Spec2Isabelle
  imports Main "HOL-Library.Word" "HOL-Library.Char_ord" "HOL-Library.List_Lexorder"
begin

section \<open>The configuration manager of configmgr.hpp\<close>

text \<open>
  The model follows \<^verbatim>\<open>src/configmgr/configmgr.hpp\<close>: a \<^verbatim>\<open>ConfigManagerObject\<close> keeps a
  \<^verbatim>\<open>std::map\<close> from D-Bus object paths to \<^verbatim>\<open>ConfigurationObject\<close>s; each
  \<^verbatim>\<open>ConfigurationObject\<close> answers method calls, property reads and property writes.
  A caller is identified by the uid that \<^verbatim>\<open>GetUID(sender)\<close> resolves the bus name to.
  Exceptions and D-Bus error replies are values of type \<open>error\<close>; a call returns its
  reply together with the state it leaves behind. Logging, signals, introspection data
  and the idle-check bookkeeping do not influence any reply and are left out.
\<close>

subsection \<open>Values, errors and replies\<close>

type_synonym uid_t = "32 word"

type_synonym time_t = int

datatype error =
    AclDenied            \<comment> \<open>a \<^verbatim>\<open>DBusCredentialsException\<close>, reported to the caller\<close>
  | ErrReadOnly          \<comment> \<open>\<^verbatim>\<open>net.openvpn.v3.error.ReadOnly\<close> and \<^verbatim>\<open>G_IO_ERROR_READ_ONLY\<close>\<close>
  | ErrInvalidData       \<comment> \<open>\<^verbatim>\<open>net.openvpn.v3.error.InvalidData\<close>\<close>
  | ErrExists            \<comment> \<open>\<^verbatim>\<open>G_IO_ERROR_EXISTS\<close>\<close>
  | ErrDenied            \<comment> \<open>\<^verbatim>\<open>G_IO_ERROR_FAILED\<close> with the text "Denied"\<close>
  | ErrUnknownProperty   \<comment> \<open>\<^verbatim>\<open>G_IO_ERROR_FAILED\<close> with the text "Unknown property"\<close>
  | ErrUnknownObject     \<comment> \<open>no object is registered at the addressed path\<close>
  | ErrOption string     \<comment> \<open>the exception thrown by \<^verbatim>\<open>options.parse_from_config\<close>\<close>
  | ErrDBusException     \<comment> \<open>a \<^verbatim>\<open>DBusException\<close> that leaves the call\<close>

datatype GVariant =
    GString string
  | GBoolean bool
  | GUInt32 "32 word"
  | GUInt64 "64 word"
  | GUInt32Array "32 word list"
  | GObjectPath string
  | GObjectPathArray "string list"

text \<open>
  The serialisers \<^verbatim>\<open>string_export\<close> and \<^verbatim>\<open>json_export\<close> belong to the option list
  and are not part of this file; a reply names the export and the option list it is taken
  from.
\<close>

datatype 'o reply =
    ReplyNull
  | StringExport 'o
  | JsonExport 'o
  | ReplyValue GVariant
  | PropertyResponse string GVariant

text \<open>
  The GLib functions the file calls, as GLib documents them: \<^verbatim>\<open>g_variant_get_string\<close>
  gives the empty string and \<^verbatim>\<open>g_variant_get_boolean\<close> gives false for a value of another
  type; an object path starts with a slash, its elements are non-empty runs of letters,
  digits and underscores separated by single slashes, and only the root path ends in a
  slash.
\<close>

definition g_variant_get_string :: "GVariant \<Rightarrow> string" where
  "g_variant_get_string v = (case v of GString s \<Rightarrow> s | _ \<Rightarrow> [])"

definition g_variant_get_boolean :: "GVariant \<Rightarrow> bool" where
  "g_variant_get_boolean v = (case v of GBoolean b \<Rightarrow> b | _ \<Rightarrow> False)"

definition g_ascii_isalnum :: "char \<Rightarrow> bool" where
  "g_ascii_isalnum c =
     (let n = (of_char c :: nat)
      in (48 \<le> n \<and> n \<le> 57) \<or> (65 \<le> n \<and> n \<le> 90) \<or> (97 \<le> n \<and> n \<le> 122))"

fun object_path_rest :: "bool \<Rightarrow> string \<Rightarrow> bool" where
  "object_path_rest after_slash [] = (\<not> after_slash)"
| "object_path_rest after_slash (c # cs) =
     (if g_ascii_isalnum c \<or> c = CHR ''_'' then object_path_rest False cs
      else if c = CHR ''/'' then (if after_slash then False else object_path_rest True cs)
      else False)"

definition g_variant_is_object_path :: "string \<Rightarrow> bool" where
  "g_variant_is_object_path s =
     (case s of [] \<Rightarrow> False
      | c # cs \<Rightarrow> if c \<noteq> CHR ''/'' then False
                 else if cs = [] then True else object_path_rest True cs)"

text \<open>
  Modelled from the spec: the constant \<^verbatim>\<open>OpenVPN3DBus_rootp_configuration\<close> is defined in
  \<^verbatim>\<open>dbus/constants.hpp\<close>, which is not among the sources; its value is the root path that
  the comment above \<^verbatim>\<open>ConfigurationAlias\<close> names.
\<close>

definition OpenVPN3DBus_rootp_configuration :: string where
  "OpenVPN3DBus_rootp_configuration = ''/net/openvpn/v3/configuration''"

subsection \<open>The std::map of configuration objects\<close>

text \<open>
  A \<^verbatim>\<open>std::map<std::string, T>\<close> is an association list kept in ascending key order
  (\<^verbatim>\<open>std::string\<close> compares bytes lexicographically); iterating it visits the keys in
  that order.
\<close>

fun map_assign :: "string \<Rightarrow> 'v \<Rightarrow> (string \<times> 'v) list \<Rightarrow> (string \<times> 'v) list" where
  "map_assign k v [] = [(k, v)]"
| "map_assign k v ((k', v') # xs) =
     (if k < k' then (k, v) # (k', v') # xs
      else if k = k' then (k, v) # xs
      else (k', v') # map_assign k v xs)"

definition map_erase :: "string \<Rightarrow> (string \<times> 'v) list \<Rightarrow> (string \<times> 'v) list" where
  "map_erase k xs = filter (\<lambda>kv. fst kv \<noteq> k) xs"

text \<open>Writing through the pointer that \<^verbatim>\<open>find\<close> returns: the entry of the key gets the value.\<close>

fun map_store :: "string \<Rightarrow> 'v \<Rightarrow> (string \<times> 'v) list \<Rightarrow> (string \<times> 'v) list" where
  "map_store k v [] = []"
| "map_store k v ((k', v') # xs) =
     (if k' = k then (k, v) # xs else (k', v') # map_store k v xs)"

subsection \<open>DBusCredentials: owner and access control list\<close>

record DBusCredentials =
  owner :: uid_t
  acl_public :: bool
  acl_list :: "uid_t list"

text \<open>
  Modelled from the spec: \<^verbatim>\<open>DBusCredentials::CheckOwnerAccess\<close> lives in
  \<^verbatim>\<open>dbus/connection-creds.hpp\<close>, which is not among the sources. Owner access is allowed
  iff the caller is the owner; where the call site permits the backend bypass
  (\<open>allow_root\<close>), the privileged backend (uid 0) passes as well. A refusal is the
  \<^verbatim>\<open>DBusCredentialsException\<close>.
\<close>

definition CheckOwnerAccess :: "'a DBusCredentials_scheme \<Rightarrow> uid_t \<Rightarrow> bool \<Rightarrow> error + unit" where
  "CheckOwnerAccess c sender allow_root =
     (if sender = owner c then Inr ()
      else if allow_root \<and> sender = 0 then Inr ()
      else Inl AclDenied)"

text \<open>
  Modelled from the spec: \<^verbatim>\<open>DBusCredentials::CheckACL\<close> is not among the sources either.
  It is the spec's Read evaluation without the lock-down step, which the callers in
  configmgr.hpp apply themselves (\<^verbatim>\<open>locked_down\<close> is a private member of
  \<^verbatim>\<open>ConfigurationObject\<close>, out of reach of its base class): the owner is allowed, then
  the backend where the call site permits the bypass, then a granted uid, then anyone if
  public access is set; everyone else is refused.
\<close>

definition CheckACL :: "'a DBusCredentials_scheme \<Rightarrow> uid_t \<Rightarrow> bool \<Rightarrow> error + unit" where
  "CheckACL c sender allow_root =
     (if sender = owner c then Inr ()
      else if allow_root \<and> sender = 0 then Inr ()
      else if sender \<in> set (acl_list c) then Inr ()
      else if acl_public c then Inr ()
      else Inl AclDenied)"

text \<open>
  Modelled from the spec: \<^verbatim>\<open>GrantAccess\<close> is in \<^verbatim>\<open>dbus/connection-creds.hpp\<close> too; it
  adds the uid to the granted set, and granting an already granted uid changes nothing.
\<close>

definition GrantAccess :: "'a DBusCredentials_scheme \<Rightarrow> uid_t \<Rightarrow> 'a DBusCredentials_scheme" where
  "GrantAccess c uid = c\<lparr>acl_list := List.insert uid (acl_list c)\<rparr>"

text \<open>
  Modelled from the spec: \<^verbatim>\<open>RevokeAccess\<close> (same header) takes the uid out of the
  granted set; revoking an absent uid changes nothing.
\<close>

definition RevokeAccess :: "'a DBusCredentials_scheme \<Rightarrow> uid_t \<Rightarrow> 'a DBusCredentials_scheme" where
  "RevokeAccess c uid = c\<lparr>acl_list := removeAll uid (acl_list c)\<rparr>"

text \<open>Modelled from the spec: \<^verbatim>\<open>SetPublicAccess\<close> (same header) sets the public-read flag.\<close>

definition SetPublicAccess :: "'a DBusCredentials_scheme \<Rightarrow> bool \<Rightarrow> 'a DBusCredentials_scheme" where
  "SetPublicAccess c b = c\<lparr>acl_public := b\<rparr>"

text \<open>Modelled from the spec: \<^verbatim>\<open>GetPublicAccess\<close> (same header) reads the public-read flag.\<close>

definition GetPublicAccess :: "'a DBusCredentials_scheme \<Rightarrow> GVariant" where
  "GetPublicAccess c = GBoolean (acl_public c)"

text \<open>Modelled from the spec: \<^verbatim>\<open>GetAccessList\<close> (same header) reads the granted uids.\<close>

definition GetAccessList :: "'a DBusCredentials_scheme \<Rightarrow> GVariant" where
  "GetAccessList c = GUInt32Array (acl_list c)"

text \<open>Modelled from the spec: \<^verbatim>\<open>GetOwner\<close> (same header) reads the owner's uid.\<close>

definition GetOwner :: "'a DBusCredentials_scheme \<Rightarrow> GVariant" where
  "GetOwner c = GUInt32 (owner c)"

subsection \<open>ConfigurationObject\<close>

record 'o ConfigurationObject = DBusCredentials +
  name :: string
  import_tstamp :: time_t
  last_use_tstamp :: time_t
  used_count :: "32 word"
  valid :: bool
  readonly :: bool
  single_use :: bool
  persistent :: bool
  locked_down :: bool
  persist_tun :: bool
  alias_name :: "string option"
  options :: 'o

text \<open>
  Modelled from the spec: the constructor of the base class \<^verbatim>\<open>DBusCredentials\<close> is not
  among the sources; it records the creator as owner, and a new profile has no granted
  uids and no public access.
\<close>

definition DBusCredentials_new :: "uid_t \<Rightarrow> DBusCredentials" where
  "DBusCredentials_new creator = \<lparr> owner = creator, acl_public = False, acl_list = [] \<rparr>"

text \<open>
  The constructor. \<open>parse_from_config\<close> stands for \<^verbatim>\<open>options.parse_from_config\<close> with
  its \<^verbatim>\<open>OptionList::Limits\<close> (the OpenVPN 3 core library): it returns the option list or
  the message of the exception it throws, which leaves the constructor. The initialiser
  list gives \<^verbatim>\<open>locked_down\<close> no value, so the value the member starts with is an input
  (\<open>ld0\<close>). The members after the base class are, in order: name, import and last-use
  timestamps, use count, valid, readonly, single_use, persistent, locked_down,
  persist_tun, alias, options.
\<close>

definition ConfigurationObject_new ::
  "(string \<Rightarrow> string + 'o) \<Rightarrow> time_t \<Rightarrow> bool \<Rightarrow> uid_t \<Rightarrow> string \<Rightarrow> string \<Rightarrow> bool \<Rightarrow> bool
     \<Rightarrow> error + 'o ConfigurationObject" where
  "ConfigurationObject_new parse_from_config now ld0 creator cfgname cfgstr su pers =
     (case parse_from_config cfgstr of
        Inl msg \<Rightarrow> Inl (ErrOption msg)
      | Inr opts \<Rightarrow>
          Inr (DBusCredentials.extend (DBusCredentials_new creator)
                 (ConfigurationObject.fields cfgname now 0 0 True False su pers ld0 False
                    None opts)))"

datatype object_method =
    Fetch
  | FetchJSON
  | SetOption string string
  | AccessGrant uid_t
  | AccessRevoke uid_t
  | Seal
  | Remove

text \<open>
  A method call on a configuration object returns the reply and the object afterwards;
  \<open>None\<close> stands for \<^verbatim>\<open>RemoveObject(conn); delete this\<close>, whose destructor runs the
  remove callback.
\<close>

fun ConfigurationObject_callback_method_call ::
  "time_t \<Rightarrow> uid_t \<Rightarrow> object_method \<Rightarrow> 'o ConfigurationObject
     \<Rightarrow> (error + 'o reply) \<times> 'o ConfigurationObject option" where
  "ConfigurationObject_callback_method_call now sender Fetch c =
     (case (if \<not> locked_down c then CheckACL c sender True
            else CheckOwnerAccess c sender True) of
        Inl e \<Rightarrow> (Inl e, Some c)
      | Inr _ \<Rightarrow>
          (Inr (StringExport (options c)),
           if sender = 0 then
             (if single_use c then None
              else Some (c\<lparr>used_count := used_count c + 1, last_use_tstamp := now\<rparr>))
           else Some c))"
| "ConfigurationObject_callback_method_call now sender FetchJSON c =
     (case (if \<not> locked_down c then CheckACL c sender False
            else CheckOwnerAccess c sender False) of
        Inl e \<Rightarrow> (Inl e, Some c)
      | Inr _ \<Rightarrow> (Inr (JsonExport (options c)), Some c))"
| "ConfigurationObject_callback_method_call now sender (SetOption opt val) c =
     (if readonly c then (Inl ErrReadOnly, Some c)
      else case CheckOwnerAccess c sender False of
        Inl e \<Rightarrow> (Inl e, Some c)
      | Inr _ \<Rightarrow> (Inr ReplyNull, Some c))"
| "ConfigurationObject_callback_method_call now sender (AccessGrant uid) c =
     (if readonly c then (Inl ErrReadOnly, Some c)
      else case CheckOwnerAccess c sender False of
        Inl e \<Rightarrow> (Inl e, Some c)
      | Inr _ \<Rightarrow> (Inr ReplyNull, Some (GrantAccess c uid)))"
| "ConfigurationObject_callback_method_call now sender (AccessRevoke uid) c =
     (if readonly c then (Inl ErrReadOnly, Some c)
      else case CheckOwnerAccess c sender False of
        Inl e \<Rightarrow> (Inl e, Some c)
      | Inr _ \<Rightarrow> (Inr ReplyNull, Some (RevokeAccess c uid)))"
| "ConfigurationObject_callback_method_call now sender Seal c =
     (case CheckOwnerAccess c sender False of
        Inl e \<Rightarrow> (Inl e, Some c)
      | Inr _ \<Rightarrow>
          if valid c then (Inr ReplyNull, Some (c\<lparr>readonly := True\<rparr>))
          else (Inl ErrInvalidData, Some c))"
| "ConfigurationObject_callback_method_call now sender Remove c =
     (case CheckOwnerAccess c sender False of
        Inl e \<Rightarrow> (Inl e, Some c)
      | Inr _ \<Rightarrow> (Inr ReplyNull, None))"

text \<open>Property reads: \<^verbatim>\<open>owner\<close> is answered before any check.\<close>

definition ConfigurationObject_callback_get_property ::
  "uid_t \<Rightarrow> string \<Rightarrow> 'o ConfigurationObject \<Rightarrow> error + GVariant" where
  "ConfigurationObject_callback_get_property sender property_name c =
     (if property_name = ''owner'' then Inr (GetOwner c)
      else
        let allow_root = (property_name = ''persist_tun'') in
        case CheckACL c sender allow_root of
          Inl e \<Rightarrow> Inl e
        | Inr _ \<Rightarrow>
            if property_name = ''single_use'' then Inr (GBoolean (single_use c))
            else if property_name = ''persistent'' then Inr (GBoolean (persistent c))
            else if property_name = ''valid'' then Inr (GBoolean (valid c))
            else if property_name = ''readonly'' then Inr (GBoolean (readonly c))
            else if property_name = ''name'' then Inr (GString (name c))
            else if property_name = ''import_timestamp''
              then Inr (GUInt64 (word_of_int (import_tstamp c)))
            else if property_name = ''last_used_timestamp''
              then Inr (GUInt64 (word_of_int (last_use_tstamp c)))
            else if property_name = ''used_count'' then Inr (GUInt32 (used_count c))
            else if property_name = ''alias''
              then Inr (GString (case alias_name c of Some a \<Rightarrow> a | None \<Rightarrow> []))
            else if property_name = ''locked_down'' then Inr (GBoolean (locked_down c))
            else if property_name = ''public_access'' then Inr (GetPublicAccess c)
            else if property_name = ''persist_tun'' then Inr (GBoolean (persist_tun c))
            else if property_name = ''acl'' then Inr (GetAccessList c)
            else Inl ErrUnknownProperty)"

text \<open>
  The constructor of \<^verbatim>\<open>ConfigurationAlias\<close>: the alias object is the pair of its name and
  the configuration path; \<open>None\<close> is the \<^verbatim>\<open>DBusException\<close> "Specified alias is invalid".
\<close>

definition ConfigurationAlias_new :: "string \<Rightarrow> string \<Rightarrow> (string \<times> string) option" where
  "ConfigurationAlias_new aliasname cfgpath =
     (if \<not> g_variant_is_object_path
               (OpenVPN3DBus_rootp_configuration @ ''/aliases/'' @ aliasname)
      then None
      else Some (aliasname, cfgpath))"

text \<open>
  Modelled from the spec: \<^verbatim>\<open>DBusObject::RegisterObject\<close> is in \<^verbatim>\<open>dbus/core.hpp\<close>, which is
  not among the sources. The objects of one kind registered on the bus connection are a
  list keyed by what names them: the alias objects by their alias name, the configuration
  objects by their path. Registering an object whose name is already registered is the
  name conflict and throws a \<^verbatim>\<open>DBusException\<close> (\<open>None\<close>), otherwise the object is
  added.
\<close>

definition RegisterObject ::
  "string \<times> 'v \<Rightarrow> (string \<times> 'v) list \<Rightarrow> (string \<times> 'v) list option" where
  "RegisterObject obj objs =
     (if map_of objs (fst obj) \<noteq> None then None else Some (obj # objs))"

text \<open>
  Modelled from the spec: \<^verbatim>\<open>DBusObject::RemoveObject\<close> (same header) takes the alias
  object of that name off the bus connection.
\<close>

definition RemoveObject :: "string \<Rightarrow> (string \<times> string) list \<Rightarrow> (string \<times> string) list" where
  "RemoveObject aliasname aliases = filter (\<lambda>e. fst e \<noteq> aliasname) aliases"

text \<open>
  Property writes. The state a write works on is the object together with the alias
  objects registered on the bus connection. The connection is taken to be present
  (\<^verbatim>\<open>conn\<close> is not null). Whatever \<^verbatim>\<open>DBusException\<close> the construction or the
  registration of the new alias throws is turned into \<^verbatim>\<open>G_IO_ERROR_EXISTS\<close>, with the
  old alias already gone.
\<close>

definition ConfigurationObject_callback_set_property ::
  "string \<Rightarrow> uid_t \<Rightarrow> string \<Rightarrow> GVariant \<Rightarrow> (string \<times> string) list \<times> 'o ConfigurationObject
     \<Rightarrow> (error + 'o reply) \<times> (string \<times> string) list \<times> 'o ConfigurationObject" where
  "ConfigurationObject_callback_set_property obj_path sender property_name v st =
     (let aliases = fst st; c = snd st in
      if readonly c then (Inl ErrReadOnly, aliases, c)
      else case CheckOwnerAccess c sender False of
        Inl e \<Rightarrow> (Inl e, aliases, c)
      | Inr _ \<Rightarrow>
          if property_name = ''alias'' then
            (let aliases1 = (case alias_name c of
                               Some old \<Rightarrow> RemoveObject old aliases
                             | None \<Rightarrow> aliases);
                 c1 = c\<lparr>alias_name := None\<rparr>
             in case ConfigurationAlias_new (g_variant_get_string v) obj_path of
                  None \<Rightarrow> (Inl ErrExists, aliases1, c1)
                | Some a \<Rightarrow>
                    (case RegisterObject a aliases1 of
                       None \<Rightarrow> (Inl ErrExists, aliases1, c1)
                     | Some aliases2 \<Rightarrow>
                         (Inr (PropertyResponse property_name (GString (fst a))),
                          aliases2, c1\<lparr>alias_name := Some (fst a)\<rparr>)))
          else if property_name = ''name'' then
            (let n = g_variant_get_string v
             in (Inr (PropertyResponse property_name (GString n)), aliases, c\<lparr>name := n\<rparr>))
          else if property_name = ''locked_down'' then
            (let b = g_variant_get_boolean v
             in (Inr (PropertyResponse property_name (GBoolean b)), aliases,
                 c\<lparr>locked_down := b\<rparr>))
          else if property_name = ''public_access'' then
            (let b = g_variant_get_boolean v
             in (Inr (PropertyResponse property_name (GBoolean b)), aliases,
                 SetPublicAccess c b))
          else if property_name = ''persist_tun'' then
            (let b = g_variant_get_boolean v
             in (Inr (PropertyResponse property_name (GBoolean b)), aliases,
                 c\<lparr>persist_tun := b\<rparr>))
          else (Inl ErrDenied, aliases, c))"

subsection \<open>ConfigManagerObject and the objects on the bus\<close>

text \<open>
  \<open>config_objects\<close> is the member of \<^verbatim>\<open>ConfigManagerObject\<close>; \<open>alias_objects\<close> are the
  \<^verbatim>\<open>ConfigurationAlias\<close> objects registered on the bus connection, as (alias name,
  configuration path).
\<close>

record 'o configmgr =
  config_objects :: "(string \<times> 'o ConfigurationObject) list"
  alias_objects :: "(string \<times> string) list"

definition configmgr_init :: "'o configmgr" where
  "configmgr_init = \<lparr> config_objects = [], alias_objects = [] \<rparr>"

text \<open>
  What a call takes from its environment: the clock (\<^verbatim>\<open>std::time(nullptr)\<close>), the path
  that \<^verbatim>\<open>generate_path_uuid\<close> returns (it is not among the sources and draws a random
  UUID, so its result is an input of the call), and the value the uninitialised
  \<^verbatim>\<open>locked_down\<close> member of a new object happens to hold.
\<close>

record call_env =
  now :: time_t
  cfgpath :: string
  ld0 :: bool

datatype manager_method =
    Import string string bool bool
  | FetchAvailableConfigs

text \<open>
  The loop of \<^verbatim>\<open>FetchAvailableConfigs\<close>: a refused entry is skipped.

  \<^verbatim>\<open>Import\<close> below constructs the object, registers it on the bus with
  \<^verbatim>\<open>cfgobj->RegisterObject(conn)\<close> and then stores it with
  \<^verbatim>\<open>config_objects[cfgpath] = cfgobj\<close>. A configuration object is registered on the bus
  exactly while it is in \<open>config_objects\<close> (it is registered right before the store, and
  \<^verbatim>\<open>RemoveObject(conn)\<close> comes right before the \<^verbatim>\<open>delete this\<close> that erases it), so
  \<open>config_objects\<close> is also the list of the configuration objects on the bus. When the
  constructor or the registration throws, nothing has been stored and the exception leaves
  the call.
\<close>

fun available_configs :: "uid_t \<Rightarrow> (string \<times> 'o ConfigurationObject) list \<Rightarrow> string list" where
  "available_configs sender [] = []"
| "available_configs sender (item # items) =
     (case CheckACL (snd item) sender False of
        Inr _ \<Rightarrow> fst item # available_configs sender items
      | Inl _ \<Rightarrow> available_configs sender items)"

fun ConfigManagerObject_callback_method_call ::
  "(string \<Rightarrow> string + 'o) \<Rightarrow> call_env \<Rightarrow> uid_t \<Rightarrow> manager_method \<Rightarrow> 'o configmgr
     \<Rightarrow> (error + 'o reply) \<times> 'o configmgr" where
  "ConfigManagerObject_callback_method_call parse_from_config env sender
       (Import cfgname cfgstr su pers) m =
     (case ConfigurationObject_new parse_from_config (now env) (ld0 env) sender
             cfgname cfgstr su pers of
        Inl e \<Rightarrow> (Inl e, m)
      | Inr cfgobj \<Rightarrow>
          (case RegisterObject (cfgpath env, cfgobj) (config_objects m) of
             None \<Rightarrow> (Inl ErrDBusException, m)
           | Some _ \<Rightarrow>
               (Inr (ReplyValue (GObjectPath (cfgpath env))),
                m\<lparr>config_objects := map_assign (cfgpath env) cfgobj (config_objects m)\<rparr>)))"
| "ConfigManagerObject_callback_method_call parse_from_config env sender
       FetchAvailableConfigs m =
     (Inr (ReplyValue (GObjectPathArray (available_configs sender (config_objects m)))), m)"

text \<open>The remove callback that the destructor of a configuration object runs.\<close>

definition remove_config_object :: "string \<Rightarrow> 'o configmgr \<Rightarrow> 'o configmgr" where
  "remove_config_object path m = m\<lparr>config_objects := map_erase path (config_objects m)\<rparr>"

text \<open>
  Modelled from the spec: the bus glue that hands a method call to the object registered
  at the addressed path (\<^verbatim>\<open>dbus/core.hpp\<close> over GDBus) is not among the sources. Following
  the spec's \<open>Get(id)\<close>, a path with no object is answered with a not-found error and
  nothing changes; otherwise the object's callback runs, and the object it leaves behind
  is written back, or erased by \<open>remove_config_object\<close> when the object deleted itself.
\<close>

definition object_method_call ::
  "call_env \<Rightarrow> uid_t \<Rightarrow> string \<Rightarrow> object_method \<Rightarrow> 'o configmgr \<Rightarrow> (error + 'o reply) \<times> 'o configmgr" where
  "object_method_call env sender path meth m =
     (case map_of (config_objects m) path of
        None \<Rightarrow> (Inl ErrUnknownObject, m)
      | Some c \<Rightarrow>
          (case ConfigurationObject_callback_method_call (now env) sender meth c of
             (r, None) \<Rightarrow> (r, remove_config_object path m)
           | (r, Some c') \<Rightarrow> (r, m\<lparr>config_objects := map_store path c' (config_objects m)\<rparr>)))"

text \<open>
  Modelled from the spec: the same glue for a property read; a path with no object is
  answered with a not-found error.
\<close>

definition object_get_property ::
  "uid_t \<Rightarrow> string \<Rightarrow> string \<Rightarrow> 'o configmgr \<Rightarrow> (error + 'o reply) \<times> 'o configmgr" where
  "object_get_property sender path property_name m =
     (case map_of (config_objects m) path of
        None \<Rightarrow> (Inl ErrUnknownObject, m)
      | Some c \<Rightarrow>
          (case ConfigurationObject_callback_get_property sender property_name c of
             Inl e \<Rightarrow> (Inl e, m)
           | Inr v \<Rightarrow> (Inr (ReplyValue v), m)))"

text \<open>
  Modelled from the spec: the same glue for a property write; a path with no object is
  answered with a not-found error. What the callback did to the object and to the alias
  objects stays done when it throws.
\<close>

definition object_set_property ::
  "uid_t \<Rightarrow> string \<Rightarrow> string \<Rightarrow> GVariant \<Rightarrow> 'o configmgr \<Rightarrow> (error + 'o reply) \<times> 'o configmgr" where
  "object_set_property sender path property_name v m =
     (case map_of (config_objects m) path of
        None \<Rightarrow> (Inl ErrUnknownObject, m)
      | Some c \<Rightarrow>
          (case ConfigurationObject_callback_set_property path sender property_name v
                  (alias_objects m, c) of
             (r, aliases', c') \<Rightarrow>
               (r, m\<lparr>config_objects := map_store path c' (config_objects m),
                      alias_objects := aliases'\<rparr>)))"

datatype call =
    ManagerCall manager_method
  | ObjectCall string object_method
  | GetProperty string string
  | SetProperty string string GVariant

fun step ::
  "(string \<Rightarrow> string + 'o) \<Rightarrow> call_env \<times> uid_t \<times> call \<Rightarrow> 'o configmgr
     \<Rightarrow> (error + 'o reply) \<times> 'o configmgr" where
  "step parse_from_config (env, sender, ManagerCall meth) m =
     ConfigManagerObject_callback_method_call parse_from_config env sender meth m"
| "step parse_from_config (env, sender, ObjectCall path meth) m =
     object_method_call env sender path meth m"
| "step parse_from_config (env, sender, GetProperty path property_name) m =
     object_get_property sender path property_name m"
| "step parse_from_config (env, sender, SetProperty path property_name v) m =
     object_set_property sender path property_name v m"

text \<open>A sequence of calls, served one after the other; \<open>run\<close> gives the state at the end.\<close>

fun run :: "(string \<Rightarrow> string + 'o) \<Rightarrow> (call_env \<times> uid_t \<times> call) list \<Rightarrow> 'o configmgr \<Rightarrow> 'o configmgr" where
  "run parse_from_config [] m = m"
| "run parse_from_config (x # xs) m = run parse_from_config xs (snd (step parse_from_config x m))"


subsection \<open>The spec's vocabulary\<close>

text \<open>
  The access evaluation as the spec words it (section 4.1), to compare the code with:
  \<open>bypass\<close> says whether the call site permits the backend bypass.
\<close>

datatype access_mode = Read | Owner

definition spec_CheckAccess :: "bool \<Rightarrow> uid_t \<Rightarrow> 'o ConfigurationObject \<Rightarrow> access_mode \<Rightarrow> bool" where
  "spec_CheckAccess bypass subject p mode =
     (case mode of
        Owner \<Rightarrow> subject = owner p
      | Read \<Rightarrow>
          if subject = owner p then True
          else if locked_down p then (subject = 0 \<and> bypass)
          else if subject = 0 \<and> bypass then True
          else if subject \<in> set (acl_list p) then True
          else acl_public p)"

text \<open>The lifecycle state of the identity \<open>path\<close>, read off the registry.\<close>

datatype lifecycle = Valid | Sealed | Removed

definition state_of :: "'o configmgr \<Rightarrow> string \<Rightarrow> lifecycle" where
  "state_of m path =
     (case map_of (config_objects m) path of
        None \<Rightarrow> Removed
      | Some c \<Rightarrow> if readonly c then Sealed else Valid)"

text \<open>The spec's invalid-state error kind: the read-only and the invalid-data error.\<close>

definition is_InvalidState :: "error \<Rightarrow> bool" where
  "is_InvalidState e = (e = ErrReadOnly \<or> e = ErrInvalidData)"

subsection \<open>An invariant\<close>


subsection \<open>Example states\<close>

text \<open>
  Concrete paths, a small stand-in for the parser with its size guard, and states reached
  from the empty manager by the calls shown. Caller 1000 imports; 2000 and 3000 are other
  users; 0 is the backend.
\<close>

definition path_X :: string where
  "path_X = ''/net/openvpn/v3/configuration/9f3c1a7ex52b4x4d0ax8c61x0e4b7d2a6f15''"

definition path_Y :: string where
  "path_Y = ''/net/openvpn/v3/configuration/2d8e6b40x17c9x4f3exb5a2x6c0d9e1f7a38''"

definition demo_parse :: "string \<Rightarrow> string + string" where
  "demo_parse cfgstr =
     (if length cfgstr > 64 then Inl ''profile is too large'' else Inr cfgstr)"

definition demo_env :: "time_t \<Rightarrow> string \<Rightarrow> call_env" where
  "demo_env t p = \<lparr> now = t, cfgpath = p, ld0 = False \<rparr>"

definition demo_obj :: "string ConfigurationObject" where
  "demo_obj =
     \<lparr> owner = 1000, acl_public = False, acl_list = [], name = ''work'', import_tstamp = 100,
       last_use_tstamp = 0, used_count = 0, valid = True, readonly = False,
       single_use = False, persistent = False, locked_down = False, persist_tun = False,
       alias_name = None, options = ''remote vpn.example.net'' \<rparr>"

definition demo_obj_Y :: "string ConfigurationObject" where
  "demo_obj_Y =
     \<lparr> owner = 1000, acl_public = False, acl_list = [], name = ''home'', import_tstamp = 110,
       last_use_tstamp = 0, used_count = 0, valid = True, readonly = False,
       single_use = False, persistent = False, locked_down = False, persist_tun = False,
       alias_name = None, options = ''remote home.example.net'' \<rparr>"

definition demo_locked_obj :: "string ConfigurationObject" where
  "demo_locked_obj = demo_obj\<lparr>acl_public := True, acl_list := [2000], locked_down := True\<rparr>"

definition demo_granted_locked_obj :: "string ConfigurationObject" where
  "demo_granted_locked_obj = demo_obj\<lparr>acl_list := [2000], locked_down := True\<rparr>"

definition demo_imported :: "string configmgr" where
  "demo_imported = run demo_parse
     [(demo_env 100 path_X, 1000,
         ManagerCall (Import ''work'' ''remote vpn.example.net'' False False))]
     configmgr_init"

definition demo_locked :: "string configmgr" where
  "demo_locked = run demo_parse
     [(demo_env 101 [], 1000, ObjectCall path_X (AccessGrant 2000)),
      (demo_env 102 [], 1000, SetProperty path_X ''public_access'' (GBoolean True)),
      (demo_env 103 [], 1000, SetProperty path_X ''locked_down'' (GBoolean True))]
     demo_imported"

definition demo_granted_locked :: "string configmgr" where
  "demo_granted_locked = run demo_parse
     [(demo_env 101 [], 1000, ObjectCall path_X (AccessGrant 2000)),
      (demo_env 103 [], 1000, SetProperty path_X ''locked_down'' (GBoolean True))]
     demo_imported"

definition demo_sealed :: "string configmgr" where
  "demo_sealed = run demo_parse
     [(demo_env 104 [], 1000, ObjectCall path_X Seal)]
     demo_imported"

definition demo_removed :: "string configmgr" where
  "demo_removed = run demo_parse
     [(demo_env 105 [], 1000, ObjectCall path_X Remove)]
     demo_imported"

definition demo_two :: "string configmgr" where
  "demo_two = run demo_parse
     [(demo_env 110 path_Y, 1000,
         ManagerCall (Import ''home'' ''remote home.example.net'' False False))]
     demo_imported"

definition demo_aliased :: "string configmgr" where
  "demo_aliased = run demo_parse
     [(demo_env 111 [], 1000, SetProperty path_X ''alias'' (GString ''office'')),
      (demo_env 112 [], 1000, SetProperty path_Y ''alias'' (GString ''home''))]
     demo_two"





section \<open>Facts about the map operations\<close>

lemma map_of_map_store:
  "map_of (map_store k v xs) k' =
     (if k' = k then (case map_of xs k of None \<Rightarrow> None | Some u \<Rightarrow> Some v) else map_of xs k')"
  by (induction xs) auto

lemma map_store_same: "map_of xs k = Some v \<Longrightarrow> map_store k v xs = xs"
  by (induction xs) (auto split: if_splits)

lemma keys_map_store: "map fst (map_store k v xs) = map fst xs"
  by (induction xs) auto

lemma map_of_map_erase:
  "map_of (map_erase k xs) k' = (if k' = k then None else map_of xs k')"
  by (induction xs) (auto simp: map_erase_def)


lemma set_keys_map_assign: "set (map fst (map_assign k v xs)) = insert k (set (map fst xs))"
proof (induction xs)
  case Nil
  show ?case by simp
next
  case (Cons kv xs)
  obtain k' v' where kv: "kv = (k', v')" by (cases kv)
  from Cons kv show ?case by (simp add: insert_commute)
qed

lemma sorted_map_assign:
  "sorted_wrt (<) (map fst xs) \<Longrightarrow> sorted_wrt (<) (map fst (map_assign k v xs))"
proof (induction xs)
  case Nil
  then show ?case by simp
next
  case (Cons kv xs)
  obtain k' v' where kv: "kv = (k', v')" by (cases kv)
  show ?case
  proof (cases "k < k'")
    case True
    with Cons.prems kv show ?thesis by (auto intro: less_trans)
  next
    case False
    note nlt = this
    show ?thesis
    proof (cases "k = k'")
      case True
      with Cons.prems kv show ?thesis by auto
    next
      case False
      with nlt have "k' < k" by auto
      moreover have "sorted_wrt (<) (map fst (map_assign k v xs))"
        using Cons by simp
      moreover have "\<forall>y \<in> set (map fst (map_assign k v xs)). k' < y"
        using Cons.prems kv \<open>k' < k\<close> unfolding set_keys_map_assign by auto
      ultimately show ?thesis using kv nlt False by simp
    qed
  qed
qed

lemma sorted_map_erase:
  "sorted_wrt (<) (map fst xs) \<Longrightarrow> sorted_wrt (<) (map fst (map_erase k xs))"
  by (induction xs) (auto simp: map_erase_def)

lemma sorted_keys_filter:
  "sorted_wrt (<) (map fst xs) \<Longrightarrow> sorted_wrt (<) (map fst (filter P xs))"
  by (induction xs) auto

lemma map_of_RemoveObject:
  "map_of (RemoveObject old al) a = (if a = old then None else map_of al a)"
  by (induction al) (auto simp: RemoveObject_def)





section \<open>Facts about the calls\<close>

lemma ConfigurationObject_new_record:
  "ConfigurationObject_new parse_from_config t l creator cfgname cfgstr su pers =
     (case parse_from_config cfgstr of
        Inl msg \<Rightarrow> Inl (ErrOption msg)
      | Inr opts \<Rightarrow>
          Inr \<lparr> owner = creator, acl_public = False, acl_list = [],
                name = cfgname, import_tstamp = t, last_use_tstamp = 0, used_count = 0,
                valid = True, readonly = False, single_use = su, persistent = pers,
                locked_down = l, persist_tun = False, alias_name = None, options = opts \<rparr>)"
  by (simp add: ConfigurationObject_new_def DBusCredentials_new_def DBusCredentials.defs
      ConfigurationObject.defs split: sum.splits)

lemma available_configs_filter:
  "available_configs sender xs =
     map fst (filter (\<lambda>item. CheckACL (snd item) sender False = Inr ()) xs)"
  by (induction xs) (auto split: sum.splits)

lemma CheckACL_no_root:
  "(CheckACL c sender False = Inr ()) \<longleftrightarrow>
     (sender = owner c \<or> sender \<in> set (acl_list c) \<or> acl_public c)"
  by (simp add: CheckACL_def)



lemma object_get_property_state: "snd (object_get_property sender p pn m) = m"
  by (simp add: object_get_property_def split: option.splits sum.splits)





lemma object_method_call_absent:
  "map_of (config_objects m) p = None \<Longrightarrow>
     object_method_call env sender p meth m = (Inl ErrUnknownObject, m)"
  by (simp add: object_method_call_def)


lemma object_set_property_absent:
  "map_of (config_objects m) p = None \<Longrightarrow>
     object_set_property sender p pn v m = (Inl ErrUnknownObject, m)"
  by (simp add: object_set_property_def)




lemma set_property_readonly:
  "readonly c \<Longrightarrow>
     ConfigurationObject_callback_set_property path sender pn v (al, c) = (Inl ErrReadOnly, al, c)"
  by (simp add: ConfigurationObject_callback_set_property_def ConfigurationAlias_new_def RegisterObject_def RemoveObject_def)









lemma step_sorted:
  assumes "sorted_wrt (<) (map fst (config_objects m))"
  shows "sorted_wrt (<) (map fst (config_objects (snd (step parse x m))))"
proof -
  obtain env sender c where x: "x = (env, sender, c)" by (cases x)
  show ?thesis
  proof (cases c)
    case (ManagerCall meth)
    with assms x show ?thesis
      by (cases meth) (auto simp: sorted_map_assign split: sum.splits option.splits)
  next
    case (ObjectCall p meth)
    with assms x show ?thesis
      by (auto simp: object_method_call_def remove_config_object_def keys_map_store
          sorted_map_erase split: option.splits prod.splits)
  next
    case (GetProperty p pn)
    with assms x show ?thesis by (simp add: object_get_property_state)
  next
    case (SetProperty p pn v)
    with assms x show ?thesis
      by (auto simp: object_set_property_def keys_map_store split: option.splits prod.splits)
  qed
qed

lemma run_sorted:
  "sorted_wrt (<) (map fst (config_objects m)) \<Longrightarrow>
     sorted_wrt (<) (map fst (config_objects (run parse calls m)))"
  by (induction calls arbitrary: m) (simp_all add: step_sorted)



section \<open>The example states, evaluated\<close>

lemma path_Y_less_X: "path_Y < path_X"
  by (simp add: path_X_def path_Y_def)

lemma path_Y_neq_X: "path_Y \<noteq> path_X" "path_X \<noteq> path_Y"
  by (simp_all add: path_X_def path_Y_def)

lemma alias_paths_ok:
  "g_variant_is_object_path (OpenVPN3DBus_rootp_configuration @ ''/aliases/'' @ ''office'')"
  "g_variant_is_object_path (OpenVPN3DBus_rootp_configuration @ ''/aliases/'' @ ''home'')"
  by (simp_all add: OpenVPN3DBus_rootp_configuration_def g_variant_is_object_path_def
      g_ascii_isalnum_def)

lemma demo_imported_eq:
  "demo_imported = \<lparr> config_objects = [(path_X, demo_obj)], alias_objects = [] \<rparr>"
  by (simp add: demo_imported_def demo_env_def demo_parse_def configmgr_init_def
      ConfigurationObject_new_record RegisterObject_def demo_obj_def)

lemma demo_locked_eq:
  "demo_locked = \<lparr> config_objects = [(path_X, demo_locked_obj)], alias_objects = [] \<rparr>"
  by (simp add: demo_locked_def demo_imported_eq demo_env_def object_method_call_def
      object_set_property_def ConfigurationObject_callback_set_property_def ConfigurationAlias_new_def RegisterObject_def RemoveObject_def
      CheckOwnerAccess_def GrantAccess_def SetPublicAccess_def g_variant_get_boolean_def
      demo_obj_def demo_locked_obj_def)

lemma demo_granted_locked_eq:
  "demo_granted_locked =
     \<lparr> config_objects = [(path_X, demo_granted_locked_obj)], alias_objects = [] \<rparr>"
  by (simp add: demo_granted_locked_def demo_imported_eq demo_env_def object_method_call_def
      object_set_property_def ConfigurationObject_callback_set_property_def ConfigurationAlias_new_def RegisterObject_def RemoveObject_def
      CheckOwnerAccess_def GrantAccess_def g_variant_get_boolean_def
      demo_obj_def demo_granted_locked_obj_def)


lemma demo_sealed_eq:
  "demo_sealed =
     \<lparr> config_objects = [(path_X, demo_obj\<lparr>readonly := True\<rparr>)], alias_objects = [] \<rparr>"
  by (simp add: demo_sealed_def demo_imported_eq demo_env_def object_method_call_def
      CheckOwnerAccess_def demo_obj_def)

lemma demo_removed_eq:
  "demo_removed = \<lparr> config_objects = [], alias_objects = [] \<rparr>"
  by (simp add: demo_removed_def demo_imported_eq demo_env_def object_method_call_def
      CheckOwnerAccess_def demo_obj_def remove_config_object_def map_erase_def)

lemma demo_two_eq:
  "demo_two =
     \<lparr> config_objects = [(path_Y, demo_obj_Y), (path_X, demo_obj)], alias_objects = [] \<rparr>"
  using path_Y_less_X path_Y_neq_X
  by (simp add: demo_two_def demo_imported_eq demo_env_def demo_parse_def
      ConfigurationObject_new_record RegisterObject_def demo_obj_Y_def)

lemma demo_aliased_eq:
  "demo_aliased =
     \<lparr> config_objects = [(path_Y, demo_obj_Y\<lparr>alias_name := Some ''home''\<rparr>),
                          (path_X, demo_obj\<lparr>alias_name := Some ''office''\<rparr>)],
       alias_objects = [(''home'', path_Y), (''office'', path_X)] \<rparr>"
  using path_Y_neq_X alias_paths_ok
  by (simp add: demo_aliased_def demo_two_eq demo_env_def object_set_property_def
      ConfigurationObject_callback_set_property_def ConfigurationAlias_new_def RegisterObject_def RemoveObject_def CheckOwnerAccess_def
      g_variant_get_string_def demo_obj_def demo_obj_Y_def Let_def)




lemma demo_two_run:
  "demo_two = run demo_parse
     [(demo_env 100 path_X, 1000,
         ManagerCall (Import ''work'' ''remote vpn.example.net'' False False)),
      (demo_env 110 path_Y, 1000,
         ManagerCall (Import ''home'' ''remote home.example.net'' False False))]
     configmgr_init"
  by (simp add: demo_two_def demo_imported_def)

section \<open>The claims\<close>

text \<open>
  C1. On a locked-down profile, \<^verbatim>\<open>Fetch\<close> answers with the exported configuration exactly
  when the caller is the owner or the backend (uid 0) and refuses every other caller with
  the credentials error, whatever the granted list and the public-access flag hold;
  \<^verbatim>\<open>FetchJSON\<close> answers exactly when the caller is the owner, so the backend is refused
  there unless it owns the profile.
\<close>

theorem locked_down_fetch_owner_or_root:
  assumes "locked_down c"
  shows "fst (ConfigurationObject_callback_method_call t sender Fetch c) =
           (if sender = owner c \<or> sender = 0 then Inr (StringExport (options c))
            else Inl AclDenied)
       \<and> fst (ConfigurationObject_callback_method_call t sender FetchJSON c) =
           (if sender = owner c then Inr (JsonExport (options c)) else Inl AclDenied)"
  using assms by (simp add: CheckOwnerAccess_def)

theorem locked_down_fetch_owner_or_root_witness:
  "locked_down demo_locked_obj
   \<and> 2000 \<in> set (acl_list demo_locked_obj) \<and> acl_public demo_locked_obj
   \<and> fst (ConfigurationObject_callback_method_call 200 2000 Fetch demo_locked_obj)
       = Inl AclDenied
   \<and> fst (ConfigurationObject_callback_method_call 200 0 Fetch demo_locked_obj)
       = Inr (StringExport ''remote vpn.example.net'')
   \<and> fst (ConfigurationObject_callback_method_call 200 0 FetchJSON demo_locked_obj)
       = Inl AclDenied
   \<and> fst (ConfigurationObject_callback_method_call 200 1000 FetchJSON demo_locked_obj)
       = Inr (JsonExport ''remote vpn.example.net'')"
proof -
  have ld: "locked_down demo_locked_obj"
    by (simp add: demo_locked_obj_def)
  have fields: "owner demo_locked_obj = 1000" "acl_list demo_locked_obj = [2000]"
    "acl_public demo_locked_obj" "options demo_locked_obj = ''remote vpn.example.net''"
    by (simp_all add: demo_locked_obj_def demo_obj_def)
  show ?thesis
    using ld fields
      locked_down_fetch_owner_or_root [OF ld, of 200 2000]
      locked_down_fetch_owner_or_root [OF ld, of 200 0]
      locked_down_fetch_owner_or_root [OF ld, of 200 1000]
    by simp
qed




text \<open>
  C3, as the claim states it, fails for a removed profile: after the owner's \<^verbatim>\<open>Remove\<close>,
  \<^verbatim>\<open>SetOption\<close> and a write of \<^verbatim>\<open>persist_tun\<close> are answered with the not-found error,
  which is not an invalid-state or read-only error.
\<close>

theorem removed_profile_counterexample:
  "state_of demo_imported path_X = Valid
   \<and> state_of demo_removed path_X = Removed
   \<and> step demo_parse (demo_env 106 [], 1000, ObjectCall path_X (SetOption ''dev'' ''tun''))
        demo_removed = (Inl ErrUnknownObject, demo_removed)
   \<and> step demo_parse (demo_env 107 [], 1000, SetProperty path_X ''persist_tun'' (GBoolean True))
        demo_removed = (Inl ErrUnknownObject, demo_removed)
   \<and> \<not> is_InvalidState ErrUnknownObject"
  by (simp add: demo_imported_eq demo_removed_eq state_of_def object_method_call_def
      object_set_property_def is_InvalidState_def demo_obj_def)

text \<open>
  C3, amended. On a sealed profile \<^verbatim>\<open>SetOption\<close>, \<^verbatim>\<open>AccessGrant\<close>, \<^verbatim>\<open>AccessRevoke\<close> and
  every property write, by any caller, are rejected with the read-only error and leave the
  whole state unchanged; addressed to a removed identity, every method call and every
  property write is rejected with the not-found error and changes nothing; \<^verbatim>\<open>Remove\<close> by
  the owner succeeds on a sealed profile and removes it.
\<close>

theorem sealed_or_removed_rejects_mutation:
  "(state_of m path = Sealed \<longrightarrow>
       (\<forall>env sender opt val. object_method_call env sender path (SetOption opt val) m
            = (Inl ErrReadOnly, m))
     \<and> (\<forall>env sender uid. object_method_call env sender path (AccessGrant uid) m
            = (Inl ErrReadOnly, m))
     \<and> (\<forall>env sender uid. object_method_call env sender path (AccessRevoke uid) m
            = (Inl ErrReadOnly, m))
     \<and> (\<forall>sender pn v. object_set_property sender path pn v m = (Inl ErrReadOnly, m)))
   \<and> (state_of m path = Removed \<longrightarrow>
       (\<forall>env sender meth. object_method_call env sender path meth m = (Inl ErrUnknownObject, m))
     \<and> (\<forall>sender pn v. object_set_property sender path pn v m = (Inl ErrUnknownObject, m)))
   \<and> (\<forall>c env. map_of (config_objects m) path = Some c \<and> readonly c \<longrightarrow>
         object_method_call env (owner c) path Remove m
            = (Inr ReplyNull, remove_config_object path m)
       \<and> state_of (remove_config_object path m) path = Removed)"
proof -
  have sealed: "state_of m path = Sealed \<longrightarrow>
       (\<forall>env sender opt val. object_method_call env sender path (SetOption opt val) m
            = (Inl ErrReadOnly, m))
     \<and> (\<forall>env sender uid. object_method_call env sender path (AccessGrant uid) m
            = (Inl ErrReadOnly, m))
     \<and> (\<forall>env sender uid. object_method_call env sender path (AccessRevoke uid) m
            = (Inl ErrReadOnly, m))
     \<and> (\<forall>sender pn v. object_set_property sender path pn v m = (Inl ErrReadOnly, m))"
  proof
    assume "state_of m path = Sealed"
    then obtain c where c: "map_of (config_objects m) path = Some c" "readonly c"
      by (auto simp: state_of_def split: option.splits if_splits)
    then show "(\<forall>env sender opt val. object_method_call env sender path (SetOption opt val) m
            = (Inl ErrReadOnly, m))
     \<and> (\<forall>env sender uid. object_method_call env sender path (AccessGrant uid) m
            = (Inl ErrReadOnly, m))
     \<and> (\<forall>env sender uid. object_method_call env sender path (AccessRevoke uid) m
            = (Inl ErrReadOnly, m))
     \<and> (\<forall>sender pn v. object_set_property sender path pn v m = (Inl ErrReadOnly, m))"
      by (simp add: object_method_call_def object_set_property_def set_property_readonly
          map_store_same)
  qed
  have removed: "state_of m path = Removed \<longrightarrow>
       (\<forall>env sender meth. object_method_call env sender path meth m = (Inl ErrUnknownObject, m))
     \<and> (\<forall>sender pn v. object_set_property sender path pn v m = (Inl ErrUnknownObject, m))"
    by (auto simp: state_of_def object_method_call_absent object_set_property_absent
        split: option.splits if_splits)
  have remove: "\<forall>c env. map_of (config_objects m) path = Some c \<and> readonly c \<longrightarrow>
         object_method_call env (owner c) path Remove m
            = (Inr ReplyNull, remove_config_object path m)
       \<and> state_of (remove_config_object path m) path = Removed"
    by (simp add: object_method_call_def CheckOwnerAccess_def state_of_def
        remove_config_object_def map_of_map_erase)
  from sealed removed remove show ?thesis by blast
qed

theorem sealed_or_removed_rejects_mutation_witness:
  "state_of demo_sealed path_X = Sealed
   \<and> object_set_property 1000 path_X ''persist_tun'' (GBoolean True) demo_sealed
       = (Inl ErrReadOnly, demo_sealed)
   \<and> object_method_call (demo_env 400 []) 1000 path_X (AccessGrant 2000) demo_sealed
       = (Inl ErrReadOnly, demo_sealed)
   \<and> state_of demo_removed path_X = Removed
   \<and> object_method_call (demo_env 401 []) 1000 path_X (AccessGrant 2000) demo_removed
       = (Inl ErrUnknownObject, demo_removed)
   \<and> map_of (config_objects demo_sealed) path_X = Some (demo_obj\<lparr>readonly := True\<rparr>)
   \<and> object_method_call (demo_env 402 []) 1000 path_X Remove demo_sealed
       = (Inr ReplyNull, demo_removed)"
proof -
  have sealed: "state_of demo_sealed path_X = Sealed"
    by (simp add: demo_sealed_eq state_of_def)
  have removed: "state_of demo_removed path_X = Removed"
    by (simp add: demo_removed_eq state_of_def)
  have look: "map_of (config_objects demo_sealed) path_X = Some (demo_obj\<lparr>readonly := True\<rparr>)"
    by (simp add: demo_sealed_eq)
  have own: "owner (demo_obj\<lparr>readonly := True\<rparr>) = 1000"
    by (simp add: demo_obj_def)
  have rm: "remove_config_object path_X demo_sealed = demo_removed"
    by (simp add: demo_sealed_eq demo_removed_eq remove_config_object_def map_erase_def)
  show ?thesis
    using sealed removed look own rm
      sealed_or_removed_rejects_mutation [of demo_sealed path_X]
      sealed_or_removed_rejects_mutation [of demo_removed path_X]
    by simp
qed




text \<open>
  C5, as the claim states it, fails twice. A granted caller who is not the owner is listed
  a locked-down profile, which the spec's Read evaluation with the lock-down rule denies
  him. And two imports that are handed \<open>path_X\<close> and then \<open>path_Y\<close> are listed as
  \<open>path_Y\<close>, \<open>path_X\<close>: in the order of the paths, not of the imports.
\<close>

theorem list_counterexample:
  "map_of (config_objects demo_granted_locked) path_X = Some demo_granted_locked_obj
   \<and> \<not> spec_CheckAccess False 2000 demo_granted_locked_obj Read
   \<and> fst (step demo_parse (demo_env 200 [], 2000, ManagerCall FetchAvailableConfigs)
            demo_granted_locked)
       = Inr (ReplyValue (GObjectPathArray [path_X]))
   \<and> fst (step demo_parse (demo_env 100 path_X, 1000,
              ManagerCall (Import ''work'' ''remote vpn.example.net'' False False))
            configmgr_init)
       = Inr (ReplyValue (GObjectPath path_X))
   \<and> fst (step demo_parse (demo_env 110 path_Y, 1000,
              ManagerCall (Import ''home'' ''remote home.example.net'' False False))
            demo_imported)
       = Inr (ReplyValue (GObjectPath path_Y))
   \<and> fst (step demo_parse (demo_env 201 [], 1000, ManagerCall FetchAvailableConfigs) demo_two)
       = Inr (ReplyValue (GObjectPathArray [path_Y, path_X]))"
  using path_Y_neq_X
  by (simp add: demo_granted_locked_eq demo_two_eq demo_imported_eq configmgr_init_def
      spec_CheckAccess_def CheckACL_def demo_granted_locked_obj_def demo_obj_def
      demo_obj_Y_def demo_env_def demo_parse_def ConfigurationObject_new_record
      RegisterObject_def)

text \<open>
  C5, amended. In every state reached from the empty manager and for every caller,
  \<^verbatim>\<open>FetchAvailableConfigs\<close> succeeds, changes nothing, and returns exactly the paths of
  the profiles that the caller owns, is granted access to, or that have public access
  (\<^verbatim>\<open>CheckACL\<close> without backend bypass; the lock-down flag is not consulted), in ascending
  order of the paths; refused entries are left out.
\<close>

theorem list_is_CheckACL_in_path_order:
  "step parse (env, sender, ManagerCall FetchAvailableConfigs) (run parse calls configmgr_init)
     = (Inr (ReplyValue (GObjectPathArray
          (map fst (filter (\<lambda>item. sender = owner (snd item)
                                   \<or> sender \<in> set (acl_list (snd item))
                                   \<or> acl_public (snd item))
                     (config_objects (run parse calls configmgr_init)))))),
        run parse calls configmgr_init)
   \<and> sorted_wrt (<) (available_configs sender (config_objects (run parse calls configmgr_init)))"
proof -
  have "sorted_wrt (<) (map fst (config_objects (run parse calls configmgr_init)))"
    by (rule run_sorted) (simp add: configmgr_init_def)
  then have "sorted_wrt (<) (available_configs sender (config_objects (run parse calls configmgr_init)))"
    unfolding available_configs_filter by (rule sorted_keys_filter)
  then show ?thesis by (simp add: available_configs_filter CheckACL_no_root)
qed

theorem list_is_CheckACL_in_path_order_witness:
  "step demo_parse (demo_env 201 [], 1000, ManagerCall FetchAvailableConfigs) demo_two
     = (Inr (ReplyValue (GObjectPathArray [path_Y, path_X])), demo_two)
   \<and> sorted_wrt (<) (available_configs 1000 (config_objects demo_two))
   \<and> available_configs 3000 (config_objects demo_two) = []"
proof -
  have cfgs: "config_objects demo_two = [(path_Y, demo_obj_Y), (path_X, demo_obj)]"
    by (simp add: demo_two_eq)
  have none: "available_configs 3000 (config_objects demo_two) = []"
    by (simp add: cfgs CheckACL_def demo_obj_def demo_obj_Y_def)
  note T = list_is_CheckACL_in_path_order
      [of demo_parse "demo_env 201 []" 1000
          "[(demo_env 100 path_X, 1000,
               ManagerCall (Import ''work'' ''remote vpn.example.net'' False False)),
            (demo_env 110 path_Y, 1000,
               ManagerCall (Import ''home'' ''remote home.example.net'' False False))]",
        folded demo_two_run]
  show ?thesis
    using T none by (simp add: cfgs CheckACL_def demo_obj_def demo_obj_Y_def)
qed

text \<open>
  C6, as the claim states it, fails: the backend, neither owner nor granted nor covered
  by public access, reads \<^verbatim>\<open>persist_tun\<close>; and on a locked-down profile a granted caller
  who is not the owner reads \<^verbatim>\<open>name\<close>, and the backend reads \<^verbatim>\<open>persist_tun\<close>.
\<close>

theorem backend_property_read_counterexample:
  "map_of (config_objects demo_imported) path_X = Some demo_obj
   \<and> owner demo_obj \<noteq> 0 \<and> 0 \<notin> set (acl_list demo_obj) \<and> \<not> acl_public demo_obj
   \<and> object_get_property 0 path_X ''persist_tun'' demo_imported
       = (Inr (ReplyValue (GBoolean False)), demo_imported)
   \<and> map_of (config_objects demo_granted_locked) path_X = Some demo_granted_locked_obj
   \<and> locked_down demo_granted_locked_obj \<and> owner demo_granted_locked_obj \<noteq> 2000
   \<and> owner demo_granted_locked_obj \<noteq> 0
   \<and> object_get_property 2000 path_X ''name'' demo_granted_locked
       = (Inr (ReplyValue (GString ''work'')), demo_granted_locked)
   \<and> object_get_property 0 path_X ''persist_tun'' demo_granted_locked
       = (Inr (ReplyValue (GBoolean False)), demo_granted_locked)"
  by (simp add: demo_imported_eq demo_granted_locked_eq object_get_property_def
      ConfigurationObject_callback_get_property_def CheckACL_def
      demo_granted_locked_obj_def demo_obj_def)

text \<open>
  C6, amended. A property read is refused with the credentials error exactly when the
  property is not \<^verbatim>\<open>owner\<close> and the caller is neither the owner, nor granted, nor covered
  by public access, nor the backend reading \<^verbatim>\<open>persist_tun\<close>. So the backend bypass
  reaches \<^verbatim>\<open>persist_tun\<close> and no other property, and the lock-down flag plays no part in
  property reads.
\<close>

theorem property_read_access:
  "(ConfigurationObject_callback_get_property sender pn c = Inl AclDenied) \<longleftrightarrow>
     (pn \<noteq> ''owner'' \<and> sender \<noteq> owner c \<and> sender \<notin> set (acl_list c) \<and> \<not> acl_public c
        \<and> \<not> (pn = ''persist_tun'' \<and> sender = 0))"
  by (simp add: ConfigurationObject_callback_get_property_def CheckACL_def Let_def)

theorem property_read_access_witness:
  "(ConfigurationObject_callback_get_property 0 ''name'' demo_obj = Inl AclDenied)
   \<and> (ConfigurationObject_callback_get_property 0 ''acl'' demo_granted_locked_obj = Inl AclDenied)
   \<and> (ConfigurationObject_callback_get_property 0 ''persist_tun'' demo_obj \<noteq> Inl AclDenied)
   \<and> (ConfigurationObject_callback_get_property 2000 ''name'' demo_granted_locked_obj
        \<noteq> Inl AclDenied)"
  using property_read_access [of 0 "''name''" demo_obj]
    property_read_access [of 0 "''acl''" demo_granted_locked_obj]
    property_read_access [of 0 "''persist_tun''" demo_obj]
    property_read_access [of 2000 "''name''" demo_granted_locked_obj]
  by (simp add: demo_obj_def demo_granted_locked_obj_def)

text \<open>
  C7, as the claim states it, fails: profile \<open>path_Y\<close> holds the alias \<open>home\<close>; setting
  its alias to \<open>office\<close>, which belongs to profile \<open>path_X\<close>, fails with the exists
  error, and afterwards \<open>path_Y\<close> has no alias and \<open>home\<close> is no longer registered.
\<close>

theorem alias_conflict_counterexample:
  "map_of (config_objects demo_aliased) path_Y = Some (demo_obj_Y\<lparr>alias_name := Some ''home''\<rparr>)
   \<and> map_of (alias_objects demo_aliased) ''home'' = Some path_Y
   \<and> map_of (alias_objects demo_aliased) ''office'' = Some path_X
   \<and> path_X \<noteq> path_Y
   \<and> fst (step demo_parse (demo_env 113 [], 1000,
              SetProperty path_Y ''alias'' (GString ''office'')) demo_aliased)
       = Inl ErrExists
   \<and> map_of (config_objects (snd (step demo_parse (demo_env 113 [], 1000,
              SetProperty path_Y ''alias'' (GString ''office'')) demo_aliased))) path_Y
       = Some (demo_obj_Y\<lparr>alias_name := None\<rparr>)
   \<and> map_of (alias_objects (snd (step demo_parse (demo_env 113 [], 1000,
              SetProperty path_Y ''alias'' (GString ''office'')) demo_aliased))) ''home''
       = None"
  using path_Y_neq_X alias_paths_ok
  by (simp add: demo_aliased_eq object_set_property_def
      ConfigurationObject_callback_set_property_def ConfigurationAlias_new_def RegisterObject_def RemoveObject_def CheckOwnerAccess_def
      g_variant_get_string_def Let_def demo_obj_Y_def)

text \<open>
  C7, amended. Setting the alias of a writable profile, by its owner, to a name that is
  registered for another profile fails with the exists error. The name stays registered
  for the other profile and every other profile is untouched; the target profile's
  previous alias, if it had one, has been unregistered and the target is left without an
  alias.
\<close>

theorem alias_conflict_drops_previous_alias:
  assumes "map_of (config_objects m) path = Some c" and "\<not> readonly c" and "sender = owner c"
    and "map_of (alias_objects m) aliasname = Some other" and "other \<noteq> path"
    and "alias_name c \<noteq> Some aliasname"
  shows "object_set_property sender path ''alias'' (GString aliasname) m
           = (Inl ErrExists,
              m\<lparr>config_objects := map_store path (c\<lparr>alias_name := None\<rparr>) (config_objects m),
                alias_objects := (case alias_name c of
                                    Some old \<Rightarrow> RemoveObject old (alias_objects m)
                                  | None \<Rightarrow> alias_objects m)\<rparr>)
       \<and> map_of (config_objects (snd (object_set_property sender path ''alias''
                     (GString aliasname) m))) path = Some (c\<lparr>alias_name := None\<rparr>)
       \<and> map_of (alias_objects (snd (object_set_property sender path ''alias''
                     (GString aliasname) m))) aliasname = Some other
       \<and> (\<forall>old. alias_name c = Some old \<longrightarrow>
             map_of (alias_objects (snd (object_set_property sender path ''alias''
                     (GString aliasname) m))) old = None)
       \<and> (\<forall>p. p \<noteq> path \<longrightarrow>
             map_of (config_objects (snd (object_set_property sender path ''alias''
                     (GString aliasname) m))) p = map_of (config_objects m) p)"
proof -
  have still: "map_of (case alias_name c of
                   Some old \<Rightarrow> RemoveObject old (alias_objects m)
                 | None \<Rightarrow> alias_objects m) aliasname = Some other"
    using assms(4,6) by (auto simp: map_of_RemoveObject split: option.splits)
  have res: "object_set_property sender path ''alias'' (GString aliasname) m
           = (Inl ErrExists,
              m\<lparr>config_objects := map_store path (c\<lparr>alias_name := None\<rparr>) (config_objects m),
                alias_objects := (case alias_name c of
                                    Some old \<Rightarrow> RemoveObject old (alias_objects m)
                                  | None \<Rightarrow> alias_objects m)\<rparr>)"
    using assms(1,2,3) still
    by (simp add: object_set_property_def ConfigurationObject_callback_set_property_def ConfigurationAlias_new_def RegisterObject_def RemoveObject_def
        CheckOwnerAccess_def g_variant_get_string_def Let_def)
  show ?thesis
    unfolding res using assms(1) still
    by (auto simp: map_of_map_store map_of_RemoveObject)
qed

theorem alias_conflict_drops_previous_alias_witness:
  "map_of (config_objects demo_aliased) path_Y = Some (demo_obj_Y\<lparr>alias_name := Some ''home''\<rparr>)
   \<and> map_of (alias_objects demo_aliased) ''office'' = Some path_X
   \<and> path_X \<noteq> path_Y
   \<and> object_set_property 1000 path_Y ''alias'' (GString ''office'') demo_aliased
       = (Inl ErrExists,
          \<lparr> config_objects = [(path_Y, demo_obj_Y),
                               (path_X, demo_obj\<lparr>alias_name := Some ''office''\<rparr>)],
            alias_objects = [(''office'', path_X)] \<rparr>)"
proof -
  have look: "map_of (config_objects demo_aliased) path_Y
      = Some (demo_obj_Y\<lparr>alias_name := Some ''home''\<rparr>)"
    using path_Y_neq_X by (simp add: demo_aliased_eq)
  have nro: "\<not> readonly (demo_obj_Y\<lparr>alias_name := Some ''home''\<rparr>)"
    by (simp add: demo_obj_Y_def)
  have own: "1000 = owner (demo_obj_Y\<lparr>alias_name := Some ''home''\<rparr>)"
    by (simp add: demo_obj_Y_def)
  have taken: "map_of (alias_objects demo_aliased) ''office'' = Some path_X"
    by (simp add: demo_aliased_eq)
  have other: "path_X \<noteq> path_Y"
    by (rule path_Y_neq_X)
  have diff: "alias_name (demo_obj_Y\<lparr>alias_name := Some ''home''\<rparr>) \<noteq> Some ''office''"
    by simp
  note T = alias_conflict_drops_previous_alias [OF look nro own taken other diff]
  show ?thesis
    using look taken other T by (simp add: demo_aliased_eq demo_obj_Y_def RemoveObject_def)
qed

text \<open>
  C8. \<^verbatim>\<open>used_count\<close> is a 32-bit unsigned counter. A successful \<^verbatim>\<open>Fetch\<close> by the
  backend (uid 0) on a profile that is not single-use leaves the object with the counter
  incremented by one (wrapping at \<open>2 ^ 32\<close>) and \<^verbatim>\<open>last_use_tstamp\<close> set to the time of
  the call; on a single-use profile the object is deleted. \<^verbatim>\<open>Fetch\<close> by any other
  caller, a refused \<^verbatim>\<open>Fetch\<close>, \<^verbatim>\<open>FetchJSON\<close> by anyone, every other method and every
  property write leave the counter and the timestamp as they were.
\<close>

theorem used_count_only_on_root_fetch:
  "(\<forall>r c'. ConfigurationObject_callback_method_call t sender Fetch c = (Inr r, c') \<and> sender = 0
        \<longrightarrow> c' = (if single_use c then None
                  else Some (c\<lparr>used_count := used_count c + 1, last_use_tstamp := t\<rparr>)))
   \<and> (sender \<noteq> 0 \<longrightarrow> snd (ConfigurationObject_callback_method_call t sender Fetch c) = Some c)
   \<and> (\<forall>e c'. ConfigurationObject_callback_method_call t sender Fetch c = (Inl e, c')
        \<longrightarrow> c' = Some c)
   \<and> snd (ConfigurationObject_callback_method_call t sender FetchJSON c) = Some c
   \<and> (\<forall>meth c'. meth \<noteq> Fetch
          \<and> snd (ConfigurationObject_callback_method_call t sender meth c) = Some c'
        \<longrightarrow> used_count c' = used_count c \<and> last_use_tstamp c' = last_use_tstamp c)
   \<and> used_count (snd (snd (ConfigurationObject_callback_set_property path sender pn v (al, c))))
        = used_count c
   \<and> last_use_tstamp (snd (snd (ConfigurationObject_callback_set_property path sender pn v (al, c))))
        = last_use_tstamp c"
proof -
  have fetch_ok: "\<forall>r c'. ConfigurationObject_callback_method_call t sender Fetch c = (Inr r, c')
        \<and> sender = 0
        \<longrightarrow> c' = (if single_use c then None
                  else Some (c\<lparr>used_count := used_count c + 1, last_use_tstamp := t\<rparr>))"
    by (auto split: sum.splits if_splits)
  have fetch_other: "sender \<noteq> 0 \<longrightarrow>
        snd (ConfigurationObject_callback_method_call t sender Fetch c) = Some c"
    by (auto split: sum.splits)
  have fetch_err: "\<forall>e c'. ConfigurationObject_callback_method_call t sender Fetch c = (Inl e, c')
        \<longrightarrow> c' = Some c"
    by (auto split: sum.splits if_splits)
  have json: "snd (ConfigurationObject_callback_method_call t sender FetchJSON c) = Some c"
    by (auto split: sum.splits)
  have others: "\<forall>meth c'. meth \<noteq> Fetch
          \<and> snd (ConfigurationObject_callback_method_call t sender meth c) = Some c'
        \<longrightarrow> used_count c' = used_count c \<and> last_use_tstamp c' = last_use_tstamp c"
  proof (intro allI impI)
    fix meth c'
    assume a: "meth \<noteq> Fetch
          \<and> snd (ConfigurationObject_callback_method_call t sender meth c) = Some c'"
    then show "used_count c' = used_count c \<and> last_use_tstamp c' = last_use_tstamp c"
      by (cases meth)
         (auto simp: GrantAccess_def RevokeAccess_def split: sum.splits if_splits)
  qed
  have setp: "used_count (snd (snd (ConfigurationObject_callback_set_property path sender pn v (al, c))))
        = used_count c
     \<and> last_use_tstamp (snd (snd (ConfigurationObject_callback_set_property path sender pn v (al, c))))
        = last_use_tstamp c"
    by (simp add: ConfigurationObject_callback_set_property_def ConfigurationAlias_new_def RegisterObject_def RemoveObject_def Let_def SetPublicAccess_def
        split: sum.splits)
  from fetch_ok fetch_other fetch_err json others setp show ?thesis by blast
qed

theorem used_count_only_on_root_fetch_witness:
  "ConfigurationObject_callback_method_call 500 0 Fetch demo_obj
     = (Inr (StringExport ''remote vpn.example.net''),
        Some (demo_obj\<lparr>used_count := 1, last_use_tstamp := 500\<rparr>))
   \<and> ConfigurationObject_callback_method_call 500 1000 Fetch demo_obj
     = (Inr (StringExport ''remote vpn.example.net''), Some demo_obj)
   \<and> ConfigurationObject_callback_method_call 500 3000 Fetch demo_obj
     = (Inl AclDenied, Some demo_obj)
   \<and> ConfigurationObject_callback_method_call 500 0 FetchJSON demo_locked_obj
     = (Inl AclDenied, Some demo_locked_obj)
   \<and> snd (ConfigurationObject_callback_method_call 500 1000 Seal demo_obj)
     = Some (demo_obj\<lparr>readonly := True\<rparr>)
   \<and> used_count (demo_obj\<lparr>readonly := True\<rparr>) = used_count demo_obj"
  using used_count_only_on_root_fetch [of 500 0 demo_obj path_X "''name''" "GString ''x''" "[]"]
    used_count_only_on_root_fetch [of 500 1000 demo_obj path_X "''name''" "GString ''x''" "[]"]
    used_count_only_on_root_fetch [of 500 3000 demo_obj path_X "''name''" "GString ''x''" "[]"]
    used_count_only_on_root_fetch [of 500 0 demo_locked_obj path_X "''name''" "GString ''x''" "[]"]
  by (simp add: demo_obj_def demo_locked_obj_def CheckACL_def CheckOwnerAccess_def)

text \<open>
  C9. When the parser with its size guard rejects the payload, \<^verbatim>\<open>Import\<close> fails with the
  guard's error: no path is returned, the manager is left exactly as it was, so every
  later listing and every later run of calls is what it would have been without the
  import.
\<close>

theorem import_rejected_by_guard:
  assumes "parse_from_config cfgstr = Inl msg"
  shows "step parse_from_config (env, sender, ManagerCall (Import cfgname cfgstr su pers)) m
           = (Inl (ErrOption msg), m)
       \<and> (\<forall>caller. available_configs caller
             (config_objects (snd (step parse_from_config
                 (env, sender, ManagerCall (Import cfgname cfgstr su pers)) m)))
           = available_configs caller (config_objects m))
       \<and> (\<forall>calls. run parse_from_config
             ((env, sender, ManagerCall (Import cfgname cfgstr su pers)) # calls) m
           = run parse_from_config calls m)"
  using assms by (simp add: ConfigurationObject_new_record)

theorem import_rejected_by_guard_witness:
  "demo_parse (replicate 65 CHR ''a'') = Inl ''profile is too large''
   \<and> step demo_parse (demo_env 120 path_Y, 2000,
         ManagerCall (Import ''big'' (replicate 65 CHR ''a'') False False)) demo_imported
       = (Inl (ErrOption ''profile is too large''), demo_imported)
   \<and> available_configs 2000 (config_objects (snd (step demo_parse (demo_env 120 path_Y, 2000,
         ManagerCall (Import ''big'' (replicate 65 CHR ''a'') False False)) demo_imported))) = []"
proof -
  have rej: "demo_parse (replicate 65 CHR ''a'') = Inl ''profile is too large''"
    by (simp add: demo_parse_def)
  have none: "available_configs 2000 (config_objects demo_imported) = []"
    by (simp add: demo_imported_eq demo_obj_def CheckACL_def)
  show ?thesis
    using rej none
      import_rejected_by_guard [of demo_parse "replicate 65 CHR ''a''" "''profile is too large''"
        "demo_env 120 path_Y" 2000 "''big''" False False demo_imported]
    by simp
qed

text \<open>
  C10. Reading the property \<^verbatim>\<open>owner\<close> of an existing profile succeeds for every caller
  and returns the owner's uid, whatever the access control list, the public-access flag
  and the lock-down flag hold: the answer is given before any check.
\<close>

theorem owner_property_unchecked:
  assumes "map_of (config_objects m) path = Some c"
  shows "ConfigurationObject_callback_get_property sender ''owner'' c = Inr (GUInt32 (owner c))
       \<and> object_get_property sender path ''owner'' m = (Inr (ReplyValue (GUInt32 (owner c))), m)"
  using assms
  by (simp add: object_get_property_def ConfigurationObject_callback_get_property_def
      GetOwner_def)

theorem owner_property_unchecked_witness:
  "map_of (config_objects demo_granted_locked) path_X
     = Some demo_granted_locked_obj
   \<and> object_get_property 3000 path_X ''owner'' demo_granted_locked
       = (Inr (ReplyValue (GUInt32 1000)), demo_granted_locked)
   \<and> fst (object_get_property 3000 path_X ''name'' demo_granted_locked) = Inl AclDenied"
proof -
  have look: "map_of (config_objects demo_granted_locked) path_X = Some demo_granted_locked_obj"
    by (simp add: demo_granted_locked_eq)
  have denied: "fst (object_get_property 3000 path_X ''name'' demo_granted_locked) = Inl AclDenied"
    by (simp add: demo_granted_locked_eq object_get_property_def
        ConfigurationObject_callback_get_property_def CheckACL_def
        demo_granted_locked_obj_def demo_obj_def)
  show ?thesis
    using look denied owner_property_unchecked [OF look, of 3000]
    by (simp add: demo_granted_locked_obj_def demo_obj_def)
qed

end
